theory Spec2Isabelle
  imports Main "HOL-Library.Sublist"
begin

section \<open>Strings\<close>

text \<open>
  Python strings are modelled as \<^typ>\<open>string\<close>. \<^verbatim>\<open>str.lower()\<close> is modelled on the
  ASCII letters: \<^verbatim>\<open>A\<close> to \<^verbatim>\<open>Z\<close> go to \<^verbatim>\<open>a\<close> to \<^verbatim>\<open>z\<close>, every other character is
  kept. All the type names the script compares against are ASCII, and the SQL Server
  catalog reports its type names in ASCII.
\<close>

definition ascii_uppercase :: string where
  "ascii_uppercase = ''ABCDEFGHIJKLMNOPQRSTUVWXYZ''"

definition ascii_lowercase :: string where
  "ascii_lowercase = ''abcdefghijklmnopqrstuvwxyz''"

definition lower_char :: "char \<Rightarrow> char" where
  "lower_char c =
     (case map_of (zip ascii_uppercase ascii_lowercase) c of
        None \<Rightarrow> c
      | Some d \<Rightarrow> d)"

definition lower :: "string \<Rightarrow> string" where
  "lower s = map lower_char s"

text \<open>\<^verbatim>\<open>sep.join(parts)\<close>.\<close>

fun join :: "string \<Rightarrow> string list \<Rightarrow> string" where
  "join sep [] = []"
| "join sep [x] = x"
| "join sep (x # y # ys) = x @ sep @ join sep (y # ys)"

section \<open>Type Mapper: \<^verbatim>\<open>mssql_to_sf_type\<close> (lines 59 to 93)\<close>

text \<open>The dict literal \<^verbatim>\<open>mapping\<close>, in source order. Its keys are distinct.\<close>

definition mapping :: "(string \<times> string) list" where
  "mapping =
    [(''int'', ''NUMBER''),
     (''bigint'', ''NUMBER''),
     (''smallint'', ''NUMBER''),
     (''tinyint'', ''NUMBER''),
     (''bit'', ''BOOLEAN''),
     (''varchar'', ''VARCHAR''),
     (''nvarchar'', ''VARCHAR''),
     (''char'', ''VARCHAR''),
     (''nchar'', ''VARCHAR''),
     (''text'', ''VARCHAR''),
     (''ntext'', ''VARCHAR''),
     (''datetime'', ''TIMESTAMP_NTZ''),
     (''datetime2'', ''TIMESTAMP_NTZ''),
     (''smalldatetime'', ''TIMESTAMP_NTZ''),
     (''date'', ''DATE''),
     (''time'', ''TIME''),
     (''float'', ''FLOAT''),
     (''real'', ''FLOAT''),
     (''decimal'', ''NUMBER''),
     (''numeric'', ''NUMBER''),
     (''money'', ''NUMBER''),
     (''smallmoney'', ''NUMBER''),
     (''uniqueidentifier'', ''VARCHAR''),
     (''xml'', ''VARCHAR''),
     (''sql_variant'', ''VARCHAR''),
     (''hierarchyid'', ''VARCHAR''),
     (''geometry'', ''VARCHAR''),
     (''geography'', ''VARCHAR''),
     (''image'', ''VARCHAR''),
     (''binary'', ''VARCHAR''),
     (''varbinary'', ''VARCHAR'')]"

text \<open>\<^verbatim>\<open>mapping.get(mssql_type.lower(), 'VARCHAR')\<close>.\<close>

definition mssql_to_sf_type :: "string \<Rightarrow> string" where
  "mssql_to_sf_type mssql_type =
     (case map_of mapping (lower mssql_type) of
        None \<Rightarrow> ''VARCHAR''
      | Some sf_type \<Rightarrow> sf_type)"

section \<open>Column Projector: \<^verbatim>\<open>wrap_column_expr\<close> (lines 95 to 103)\<close>

definition wrap_column_expr :: "string \<Rightarrow> string \<Rightarrow> string" where
  "wrap_column_expr col dtype =
     (let dtype = lower dtype in
      if dtype \<in> set [''image'', ''varbinary'', ''binary'']
      then ''CONVERT(VARCHAR(MAX), ['' @ col @ ''], 1) AS ['' @ col @ '']''
      else if dtype \<in> set [''xml'', ''sql_variant'', ''hierarchyid'', ''geometry'',
                             ''geography'', ''text'', ''ntext'']
      then ''CAST(['' @ col @ ''] AS NVARCHAR(MAX)) AS ['' @ col @ '']''
      else ''['' @ col @ '']'')"

section \<open>Configuration and naming\<close>

text \<open>
  \<^verbatim>\<open>snowflake_config\<close> (lines 24 to 32) is filled from the environment. \<^verbatim>\<open>os.getenv\<close> returns
  \<^verbatim>\<open>None\<close> for an unset variable, and an f-string prints \<^verbatim>\<open>None\<close> as the text
  \<^verbatim>\<open>None\<close>: this is \<open>py_str\<close>.
\<close>

record snowflake_config =
  sf_user :: "string option"
  sf_password :: "string option"
  sf_account :: "string option"
  sf_warehouse :: "string option"
  sf_database :: "string option"
  sf_schema :: "string option"
  sf_role :: "string option"

definition py_str :: "string option \<Rightarrow> string" where
  "py_str v = (case v of None \<Rightarrow> ''None'' | Some s \<Rightarrow> s)"

definition output_dir :: string where
  "output_dir = ''./parquet_files''"

text \<open>\<^verbatim>\<open>os.path.join(a, b)\<close> with two arguments, as \<^verbatim>\<open>posixpath\<close> defines it.\<close>

definition path_join :: "string \<Rightarrow> string \<Rightarrow> string" where
  "path_join a b =
     (if b \<noteq> [] \<and> hd b = CHR ''/'' then b
      else if a = [] \<or> last a = CHR ''/'' then a @ b
      else a @ ''/'' @ b)"

section \<open>Schema Translator: the DDL and the projection query (lines 111 to 133)\<close>

text \<open>
  One row of the column metadata frame \<^verbatim>\<open>df_cols\<close>. The frame is the list of its rows, in
  the order \<^verbatim>\<open>iterrows()\<close> yields them. A source table is the pair \<open>(schema, table)\<close> the
  loops iterate over.
\<close>

record column_row =
  COLUMN_NAME :: string
  DATA_TYPE :: string

text \<open>The list comprehension of lines 119 to 122, before it is joined.\<close>

definition column_def_list :: "column_row list \<Rightarrow> string list" where
  "column_def_list df_cols =
     map (\<lambda>row. ''\"'' @ COLUMN_NAME row @ ''\" '' @ mssql_to_sf_type (DATA_TYPE row)) df_cols"

definition column_defs :: "column_row list \<Rightarrow> string" where
  "column_defs df_cols = join '',\<newline>  '' (column_def_list df_cols)"

fun ddl :: "snowflake_config \<Rightarrow> string \<times> string \<Rightarrow> column_row list \<Rightarrow> string" where
  "ddl cfg (schema, table) df_cols =
     ''CREATE OR REPLACE TABLE '' @ py_str (sf_schema cfg) @ ''.\"STG_ADW_'' @ table
       @ ''\" (\<newline>  '' @ column_defs df_cols @ ''\<newline>);''"

text \<open>
  Line 131. The list \<^verbatim>\<open>unsupported_types\<close> of lines 127 to 130 is assigned and never read.
\<close>

definition col_exprs :: "column_row list \<Rightarrow> string list" where
  "col_exprs df_cols =
     map (\<lambda>row. wrap_column_expr (COLUMN_NAME row) (DATA_TYPE row)) df_cols"

fun select_sql :: "string \<times> string \<Rightarrow> column_row list \<Rightarrow> string" where
  "select_sql (schema, table) df_cols =
     ''SELECT '' @ join '', '' (col_exprs df_cols)
       @ '' FROM ['' @ schema @ ''].['' @ table @ '']''"

text \<open>The file name of lines 141 and 161, and the path of line 141.\<close>

fun parquet_file :: "string \<times> string \<Rightarrow> string" where
  "parquet_file (schema, table) = schema @ ''_'' @ table @ ''.parquet''"

definition table_path :: "string \<times> string \<Rightarrow> string" where
  "table_path tbl = path_join output_dir (parquet_file tbl)"

section \<open>Stage and load commands (lines 158 to 172)\<close>

definition stage_name :: "snowflake_config \<Rightarrow> string" where
  "stage_name cfg =
     ''@'' @ py_str (sf_database cfg) @ ''.'' @ py_str (sf_schema cfg) @ ''.staging_stage''"

fun full_table_name :: "snowflake_config \<Rightarrow> string \<times> string \<Rightarrow> string" where
  "full_table_name cfg (schema, table) =
     py_str (sf_database cfg) @ ''.'' @ py_str (sf_schema cfg) @ ''.\"STG_ADW_'' @ table @ ''\"''"

definition put_cmd :: "snowflake_config \<Rightarrow> string \<Rightarrow> string" where
  "put_cmd cfg local_path =
     ''PUT file://'' @ local_path @ '' '' @ stage_name cfg @ ''/ AUTO_COMPRESS=TRUE;''"

definition copy_cmd :: "snowflake_config \<Rightarrow> string \<times> string \<Rightarrow> string" where
  "copy_cmd cfg tbl =
     ''\<newline>        COPY INTO '' @ full_table_name cfg tbl
       @ ''\<newline>        FROM '' @ stage_name cfg @ ''/'' @ parquet_file tbl @ ''.gz''
       @ ''\<newline>        FILE_FORMAT = (TYPE = PARQUET)''
       @ ''\<newline>        MATCH_BY_COLUMN_NAME = CASE_INSENSITIVE;\<newline>    ''"

section \<open>The script as a function of its collaborators\<close>

text \<open>
  The script talks to the source database, to the destination warehouse and to the file
  system. Their answers are the fields of \<open>world\<close>: each call either succeeds or raises.
  An exception is known by the class the script's handlers tell apart: \<^verbatim>\<open>pyodbc.Error\<close>
  (line 41), \<^verbatim>\<open>snowflake.connector.Error\<close> (line 150), and any other \<^verbatim>\<open>Exception\<close>
  (caught by lines 177 and 184 only). A collaborator answers the same call in the same
  way each time. \<^verbatim>\<open>print\<close> and \<^verbatim>\<open>close()\<close> are taken not to raise. The metadata query
  of lines 112 to 116 is identified by the table it asks about; \<^verbatim>\<open>os.path.abspath\<close>
  depends on the working directory and is a field of the world as well.
\<close>

datatype exn = PyodbcError | SnowflakeError | OtherException

text \<open>
  The row set \<^verbatim>\<open>df_data\<close>: its column labels in order, and its rows. Cell values are
  kept as text; nothing in the script reads them.
\<close>

record dataframe =
  columns :: "string list"
  rows :: "string list list"

record world =
  pyodbc_connect :: "exn option"
  mssql_cursor :: "exn option"
  fetch_tables :: "exn + (string \<times> string) list"
  read_columns :: "string \<times> string \<Rightarrow> exn + column_row list"
  read_sql_query :: "string \<Rightarrow> exn + dataframe"
  from_pandas :: "dataframe \<Rightarrow> exn option"
  write_table :: "dataframe \<Rightarrow> string \<Rightarrow> exn option"
  sf_connect :: "exn option"
  sf_cursor :: "exn option"
  sf_execute :: "string \<Rightarrow> exn option"
  abspath :: "string \<Rightarrow> string"

text \<open>
  What the run does, in order: each \<^verbatim>\<open>print\<close> (named by its line, with the values it
  interpolates) and each call that reaches a collaborator.
\<close>

datatype handle = Mssql_conn | Mssql_cursor | Sf_conn | Sf_cursor

datatype event =
    Print_connected_mssql
  | Print_mssql_failed exn
  | Print_table string string
  | Print_processing string string
  | Call_read_columns string string
  | Call_read_sql_query string
  | Print_duplicate string string "string list"
  | Call_write_table dataframe string
  | Print_connected_sf
  | Print_sf_failed exn
  | Print_executing_ddl string
  | Call_sf_execute string
  | Print_uploading string string
  | Print_put_failed string exn
  | Print_copying string
  | Print_copy_failed string exn
  | Call_close handle
  | Print_all_done

record state =
  trace :: "event list"
  sf_ddl_statements :: "string list"
  handles :: "handle list"

datatype outcome = Completed | Exit nat | Uncaught exn

definition initial :: state where
  "initial = \<lparr>trace = [], sf_ddl_statements = [], handles = []\<rparr>"

definition emit :: "event \<Rightarrow> state \<Rightarrow> state" where
  "emit e s = s\<lparr>trace := trace s @ [e]\<rparr>"

definition acquire :: "handle \<Rightarrow> state \<Rightarrow> state" where
  "acquire h s = s\<lparr>handles := handles s @ [h]\<rparr>"

definition close :: "handle \<Rightarrow> state \<Rightarrow> state" where
  "close h s = emit (Call_close h) (s\<lparr>handles := removeAll h (handles s)\<rparr>)"

subsection \<open>Duplicate column labels (lines 137 to 139)\<close>

text \<open>
  \<^verbatim>\<open>Index.duplicated()\<close> marks every label that has occurred at an earlier position;
  \<^verbatim>\<open>.any()\<close> asks for a mark; indexing by the mask keeps the marked labels.
\<close>

fun duplicated_from :: "'a list \<Rightarrow> 'a list \<Rightarrow> bool list" where
  "duplicated_from seen [] = []"
| "duplicated_from seen (x # xs) = (x \<in> set seen) # duplicated_from (x # seen) xs"

definition duplicated :: "'a list \<Rightarrow> bool list" where
  "duplicated xs = duplicated_from [] xs"

definition any_true :: "bool list \<Rightarrow> bool" where
  "any_true bs = (True \<in> set bs)"

definition mask_select :: "'a list \<Rightarrow> bool list \<Rightarrow> 'a list" where
  "mask_select xs bs = map fst (filter snd (zip xs bs))"

definition dup_cols :: "string list \<Rightarrow> string list" where
  "dup_cols cols = mask_select cols (duplicated cols)"

subsection \<open>The conversion to an Arrow table (line 142)\<close>

text \<open>
  \<^verbatim>\<open>pa.Table.from_pandas\<close> is a call into the pyarrow library. The library refuses a
  frame whose column labels are not unique: it raises \<^verbatim>\<open>ValueError\<close> (duplicate column
  names found) before it converts anything. For a frame with unique labels the outcome
  is the world's. \<^verbatim>\<open>ValueError\<close> is neither a \<^verbatim>\<open>pyodbc.Error\<close> nor a
  \<^verbatim>\<open>snowflake.connector.Error\<close>.
\<close>

definition Table_from_pandas :: "world \<Rightarrow> dataframe \<Rightarrow> exn option" where
  "Table_from_pandas w df =
     (if distinct (columns df) then from_pandas w df else Some OtherException)"

subsection \<open>The export loop (lines 108 to 143)\<close>

text \<open>
  One iteration. No statement of the loop body stands in a \<^verbatim>\<open>try\<close>: an exception of the
  metadata query, of the projection query, of the conversion or of the file write leaves
  the loop and the script. \<open>Inl (e, s)\<close> is the exception with the state it leaves behind.
\<close>

fun export_table ::
  "world \<Rightarrow> snowflake_config \<Rightarrow> string \<times> string \<Rightarrow> state \<Rightarrow> (exn \<times> state) + state" where
  "export_table w cfg (schema, table) s0 =
     (let s1 = emit (Call_read_columns schema table) (emit (Print_processing schema table) s0) in
      case read_columns w (schema, table) of
        Inl e \<Rightarrow> Inl (e, s1)
      | Inr df_cols \<Rightarrow>
         (let s2 = s1\<lparr>sf_ddl_statements :=
                        sf_ddl_statements s1 @ [ddl cfg (schema, table) df_cols]\<rparr>;
              sql = select_sql (schema, table) df_cols;
              s3 = emit (Call_read_sql_query sql) s2 in
          case read_sql_query w sql of
            Inl e \<Rightarrow> Inl (e, s3)
          | Inr df_data \<Rightarrow>
             (let s4 = (if any_true (duplicated (columns df_data))
                        then emit (Print_duplicate schema table (dup_cols (columns df_data))) s3
                        else s3) in
              case Table_from_pandas w df_data of
                Some e \<Rightarrow> Inl (e, s4)
              | None \<Rightarrow>
                 (let s5 = emit (Call_write_table df_data (table_path (schema, table))) s4 in
                  case write_table w df_data (table_path (schema, table)) of
                    Some e \<Rightarrow> Inl (e, s5)
                  | None \<Rightarrow> Inr s5))))"

fun export_loop ::
  "world \<Rightarrow> snowflake_config \<Rightarrow> (string \<times> string) list \<Rightarrow> state \<Rightarrow> (exn \<times> state) + state" where
  "export_loop w cfg [] s = Inr s"
| "export_loop w cfg (tbl # tables) s =
     (case export_table w cfg tbl s of
        Inl failed \<Rightarrow> Inl failed
      | Inr s' \<Rightarrow> export_loop w cfg tables s')"

subsection \<open>The DDL loop (lines 154 to 156)\<close>

fun ddl_loop :: "world \<Rightarrow> string list \<Rightarrow> state \<Rightarrow> (exn \<times> state) + state" where
  "ddl_loop w [] s = Inr s"
| "ddl_loop w (stmt # stmts) s =
     (let s1 = emit (Call_sf_execute stmt) (emit (Print_executing_ddl stmt) s) in
      case sf_execute w stmt of
        Some e \<Rightarrow> Inl (e, s1)
      | None \<Rightarrow> ddl_loop w stmts s1)"

subsection \<open>The load loop (lines 160 to 185)\<close>

text \<open>
  It runs over every discovered table. Both \<^verbatim>\<open>execute\<close> calls stand in a \<^verbatim>\<open>try\<close> that
  catches every \<^verbatim>\<open>Exception\<close>; a failed PUT skips the COPY of that table.
\<close>

definition load_table :: "world \<Rightarrow> snowflake_config \<Rightarrow> string \<times> string \<Rightarrow> state \<Rightarrow> state" where
  "load_table w cfg tbl s0 =
     (let local_path = abspath w (path_join output_dir (parquet_file tbl));
          put = put_cmd cfg local_path;
          s1 = emit (Call_sf_execute put)
                 (emit (Print_uploading (parquet_file tbl) (stage_name cfg)) s0) in
      case sf_execute w put of
        Some e \<Rightarrow> emit (Print_put_failed (parquet_file tbl) e) s1
      | None \<Rightarrow>
         (let s2 = emit (Call_sf_execute (copy_cmd cfg tbl))
                     (emit (Print_copying (full_table_name cfg tbl)) s1) in
          case sf_execute w (copy_cmd cfg tbl) of
            Some e \<Rightarrow> emit (Print_copy_failed (full_table_name cfg tbl) e) s2
          | None \<Rightarrow> s2))"

fun load_loop :: "world \<Rightarrow> snowflake_config \<Rightarrow> (string \<times> string) list \<Rightarrow> state \<Rightarrow> state" where
  "load_loop w cfg [] s = s"
| "load_loop w cfg (tbl # tables) s = load_loop w cfg tables (load_table w cfg tbl s)"

subsection \<open>The whole script\<close>

text \<open>Lines 189 to 193.\<close>

definition cleanup :: "state \<Rightarrow> state" where
  "cleanup s = close Sf_conn (close Sf_cursor (close Mssql_conn (close Mssql_cursor s)))"

text \<open>
  Lines 36 to 195. \<^verbatim>\<open>exit(1)\<close> and an exception nobody catches both end the process at
  once: no statement after them runs, and the script registers no handler that would.
\<close>

definition print_tables :: "(string \<times> string) list \<Rightarrow> state \<Rightarrow> state" where
  "print_tables tables s = foldl (\<lambda>s (schema, table). emit (Print_table schema table) s) s tables"

definition upload_to_snowflake ::
  "world \<Rightarrow> snowflake_config \<Rightarrow> (string \<times> string) list \<Rightarrow> state \<Rightarrow> outcome \<times> state" where
  "upload_to_snowflake w cfg tables s =
     (case sf_connect w of
        Some e \<Rightarrow>
          (if e = SnowflakeError then (Exit 1, emit (Print_sf_failed e) s) else (Uncaught e, s))
      | None \<Rightarrow>
         (let s1 = acquire Sf_conn s in
          case sf_cursor w of
            Some e \<Rightarrow>
              (if e = SnowflakeError then (Exit 1, emit (Print_sf_failed e) s1)
               else (Uncaught e, s1))
          | None \<Rightarrow>
             (let s2 = emit Print_connected_sf (acquire Sf_cursor s1) in
              case ddl_loop w (sf_ddl_statements s2) s2 of
                Inl (e, s3) \<Rightarrow> (Uncaught e, s3)
              | Inr s3 \<Rightarrow>
                  (Completed, emit Print_all_done (cleanup (load_loop w cfg tables s3))))))"

definition process_tables :: "world \<Rightarrow> snowflake_config \<Rightarrow> state \<Rightarrow> outcome \<times> state" where
  "process_tables w cfg s =
     (case fetch_tables w of
        Inl e \<Rightarrow> (Uncaught e, s)
      | Inr tables \<Rightarrow>
         (case export_loop w cfg tables (print_tables tables s) of
            Inl (e, s1) \<Rightarrow> (Uncaught e, s1)
          | Inr s1 \<Rightarrow> upload_to_snowflake w cfg tables s1))"

definition run :: "world \<Rightarrow> snowflake_config \<Rightarrow> outcome \<times> state" where
  "run w cfg =
     (case pyodbc_connect w of
        Some e \<Rightarrow>
          (if e = PyodbcError then (Exit 1, emit (Print_mssql_failed e) initial)
           else (Uncaught e, initial))
      | None \<Rightarrow>
         (let s1 = emit Print_connected_mssql (acquire Mssql_conn initial) in
          case mssql_cursor w of
            Some e \<Rightarrow>
              (if e = PyodbcError then (Exit 1, emit (Print_mssql_failed e) s1)
               else (Uncaught e, s1))
          | None \<Rightarrow> process_tables w cfg (acquire Mssql_cursor s1)))"

section \<open>Reading the generated statements\<close>

text \<open>
  The columns a generated statement lists, read from the text of the statement as the
  database that receives it reads it. They are used to compare the two statements of a
  table; the script itself never reads its statements back.
\<close>

definition emit_label :: "string option \<Rightarrow> string list" where
  "emit_label lbl = (case lbl of None \<Rightarrow> [] | Some n \<Rightarrow> [n])"

text \<open>
  The select list of a T-SQL query: the text after \<^verbatim>\<open>SELECT\<close> up to the \<^verbatim>\<open>FROM\<close>
  that stands outside brackets and parentheses. An identifier opens at \<^verbatim>\<open>[\<close> and runs
  to the next \<^verbatim>\<open>]\<close>; a comma outside brackets and parentheses ends an item; the output
  label of an item is its last identifier (the column itself, or the alias after
  \<^verbatim>\<open>AS\<close>). \<open>inq\<close>: inside an identifier; \<open>depth\<close>: open parentheses; \<open>cur\<close>: the
  identifier read so far; \<open>lbl\<close>: the last identifier of the current item.
\<close>

fun select_scan :: "bool \<Rightarrow> nat \<Rightarrow> string \<Rightarrow> string option \<Rightarrow> string \<Rightarrow> string list" where
  "select_scan inq depth cur lbl [] = emit_label lbl"
| "select_scan inq depth cur lbl (c # cs) =
     (if inq then
        (if c = CHR '']'' then select_scan False depth [] (Some cur) cs
         else select_scan True depth (cur @ [c]) lbl cs)
      else if c = CHR ''['' then select_scan True depth [] lbl cs
      else if c = CHR ''('' then select_scan False (Suc depth) [] lbl cs
      else if c = CHR '')'' then select_scan False (depth - 1) [] lbl cs
      else if depth = 0 \<and> c = CHR '','' then emit_label lbl @ select_scan False 0 [] None cs
      else if depth = 0 \<and> prefix '' FROM '' (c # cs) then emit_label lbl
      else select_scan False depth [] lbl cs)"

definition select_labels :: "string \<Rightarrow> string list" where
  "select_labels stmt =
     (if prefix ''SELECT '' stmt then select_scan False 0 [] None (drop 7 stmt) else [])"

text \<open>
  The column list of a \<^verbatim>\<open>CREATE TABLE\<close> statement: the text between the first
  parenthesis that stands outside double quotes and the parenthesis that closes it. An
  identifier opens at a double quote and runs to the next one; a comma outside quotes and
  inner parentheses ends a column definition; the column a definition names is its first
  identifier. \<open>started\<close>: the column list has opened.
\<close>

fun ddl_scan ::
  "bool \<Rightarrow> bool \<Rightarrow> nat \<Rightarrow> string \<Rightarrow> string option \<Rightarrow> string \<Rightarrow> string list" where
  "ddl_scan started inq depth cur lbl [] = emit_label lbl"
| "ddl_scan started inq depth cur lbl (c # cs) =
     (if inq then
        (if c = CHR 0x22
         then ddl_scan started False depth []
                (if started \<and> lbl = None then Some cur else lbl) cs
         else ddl_scan started True depth (cur @ [c]) lbl cs)
      else if c = CHR 0x22 then ddl_scan started True depth [] lbl cs
      else if \<not> started then ddl_scan (c = CHR ''('') False 0 [] None cs
      else if c = CHR ''('' then ddl_scan True False (Suc depth) [] lbl cs
      else if c = CHR '')'' then
        (if depth = 0 then emit_label lbl else ddl_scan True False (depth - 1) [] lbl cs)
      else if depth = 0 \<and> c = CHR '','' then emit_label lbl @ ddl_scan True False 0 [] None cs
      else ddl_scan True False depth [] lbl cs)"

definition ddl_labels :: "string \<Rightarrow> string list" where
  "ddl_labels stmt = ddl_scan False False 0 [] None stmt"

text \<open>A statement without its blanks and line breaks, which SQL does not read.\<close>

definition strip_blanks :: "string \<Rightarrow> string" where
  "strip_blanks s = filter (\<lambda>c. c \<noteq> CHR '' '' \<and> c \<noteq> CHR ''\<newline>'') s"

section \<open>Concrete inputs\<close>

text \<open>
  A configuration with destination database \<^verbatim>\<open>DB\<close> and schema \<^verbatim>\<open>SCH\<close>, and the
  \<^verbatim>\<open>dbo.Customers\<close> table of the end-to-end scenario.
\<close>

definition cfg_SCH :: snowflake_config where
  "cfg_SCH =
     \<lparr>sf_user = Some ''loader'', sf_password = Some ''secret'', sf_account = Some ''acct'',
      sf_warehouse = Some ''WH'', sf_database = Some ''DB'', sf_schema = Some ''SCH'',
      sf_role = Some ''LOADER''\<rparr>"

definition customers_cols :: "column_row list" where
  "customers_cols =
     [\<lparr>COLUMN_NAME = ''CustomerID'', DATA_TYPE = ''int''\<rparr>,
      \<lparr>COLUMN_NAME = ''Name'', DATA_TYPE = ''nvarchar''\<rparr>,
      \<lparr>COLUMN_NAME = ''Photo'', DATA_TYPE = ''varbinary''\<rparr>]"

definition id_name_photo_cols :: "column_row list" where
  "id_name_photo_cols =
     [\<lparr>COLUMN_NAME = ''id'', DATA_TYPE = ''int''\<rparr>,
      \<lparr>COLUMN_NAME = ''name'', DATA_TYPE = ''nvarchar''\<rparr>,
      \<lparr>COLUMN_NAME = ''photo'', DATA_TYPE = ''varbinary''\<rparr>]"

text \<open>
  A source with the two tables \<^verbatim>\<open>dbo.A\<close> and \<^verbatim>\<open>dbo.B\<close>, each with the single column
  \<^verbatim>\<open>id int\<close> and no rows, in a world where every call succeeds.
\<close>

definition id_col :: "column_row list" where
  "id_col = [\<lparr>COLUMN_NAME = ''id'', DATA_TYPE = ''int''\<rparr>]"

definition id_frame :: dataframe where
  "id_frame = \<lparr>columns = [''id''], rows = []\<rparr>"

definition healthy :: world where
  "healthy =
     \<lparr>pyodbc_connect = None,
      mssql_cursor = None,
      fetch_tables = Inr [(''dbo'', ''A''), (''dbo'', ''B'')],
      read_columns = (\<lambda>tbl. Inr id_col),
      read_sql_query = (\<lambda>sql. Inr id_frame),
      from_pandas = (\<lambda>df. None),
      write_table = (\<lambda>df path. None),
      sf_connect = None,
      sf_cursor = None,
      sf_execute = (\<lambda>stmt. None),
      abspath = (\<lambda>path. ''/work'' @ drop 1 path)\<rparr>"

text \<open>The same world, but the projection query of \<^verbatim>\<open>dbo.B\<close> raises.\<close>

definition export_B_fails :: world where
  "export_B_fails =
     healthy\<lparr>read_sql_query :=
       (\<lambda>sql. if sql = ''SELECT [id] FROM [dbo].[B]'' then Inl OtherException
              else Inr id_frame)\<rparr>"

text \<open>The same world, but the destination rejects the DDL statement of \<^verbatim>\<open>dbo.A\<close>.\<close>

definition ddl_A_fails :: world where
  "ddl_A_fails =
     healthy\<lparr>sf_execute :=
       (\<lambda>stmt. if stmt = ddl cfg_SCH (''dbo'', ''A'') id_col then Some SnowflakeError
               else None)\<rparr>"

text \<open>The same world, but the destination cannot be reached.\<close>

definition snowflake_down :: world where
  "snowflake_down = healthy\<lparr>sf_connect := Some SnowflakeError\<rparr>"

text \<open>
  A source whose only table \<^verbatim>\<open>dbo.T\<close> has the two columns \<^verbatim>\<open>a\<close> and \<^verbatim>\<open>a], [a\<close>
  (a closing bracket is a legal character of a SQL Server column name). The projection
  query built for it selects column \<^verbatim>\<open>a\<close> three times, and the source answers with
  three columns labelled \<^verbatim>\<open>a\<close>.
\<close>

definition bracket_cols :: "column_row list" where
  "bracket_cols =
     [\<lparr>COLUMN_NAME = ''a'', DATA_TYPE = ''int''\<rparr>,
      \<lparr>COLUMN_NAME = ''a], [a'', DATA_TYPE = ''int''\<rparr>]"

definition aaa_frame :: dataframe where
  "aaa_frame = \<lparr>columns = [''a'', ''a'', ''a''], rows = []\<rparr>"

definition duplicate_labels :: world where
  "duplicate_labels =
     healthy\<lparr>fetch_tables := Inr [(''dbo'', ''T'')],
             read_columns := (\<lambda>tbl. Inr bracket_cols),
             read_sql_query :=
               (\<lambda>sql. if sql = ''SELECT [a], [a], [a] FROM [dbo].[T]'' then Inr aaa_frame
                      else Inl OtherException)\<rparr>"


section \<open>Basic facts\<close>

lemmas lower_eval = lower_def lower_char_def ascii_uppercase_def ascii_lowercase_def

lemma lower_char_idem: "lower_char (lower_char c) = lower_char c"
  by (simp add: lower_eval)

lemma lower_idem: "lower (lower s) = lower s"
  by (simp add: lower_def lower_char_idem)

lemma mapping_values:
  "snd ` set mapping =
     {''NUMBER'', ''BOOLEAN'', ''VARCHAR'', ''TIMESTAMP_NTZ'', ''DATE'', ''TIME'', ''FLOAT''}"
  by (simp add: mapping_def insert_commute)

lemma mapping_keys_distinct: "distinct (map fst mapping)"
  by (simp add: mapping_def)

lemma wrap_column_expr_cases:
  "wrap_column_expr c t =
     (if lower t \<in> {''image'', ''varbinary'', ''binary''}
      then ''CONVERT(VARCHAR(MAX), ['' @ c @ ''], 1) AS ['' @ c @ '']''
      else if lower t \<in> {''xml'', ''sql_variant'', ''hierarchyid'', ''geometry'',
                           ''geography'', ''text'', ''ntext''}
      then ''CAST(['' @ c @ ''] AS NVARCHAR(MAX)) AS ['' @ c @ '']''
      else ''['' @ c @ '']'')"
  by (simp add: wrap_column_expr_def Let_def)

lemma wrap_column_expr_alias: "suffix (''['' @ c @ '']'') (wrap_column_expr c t)"
  unfolding wrap_column_expr_cases suffix_def by auto

lemma trace_emit: "trace (emit e s) = trace s @ [e]"
  by (simp add: emit_def)

lemma sf_ddl_statements_emit: "sf_ddl_statements (emit e s) = sf_ddl_statements s"
  by (simp add: emit_def)

lemma handles_emit: "handles (emit e s) = handles s"
  by (simp add: emit_def)

lemmas emit_simps = trace_emit sf_ddl_statements_emit handles_emit

text \<open>Unfolding sets for evaluating the model on the concrete inputs.\<close>

lemmas string_eval = column_defs_def column_def_list_def
  col_exprs_def py_str_def mssql_to_sf_type_def mapping_def wrap_column_expr_cases lower_eval
  table_path_def path_join_def output_dir_def stage_name_def put_cmd_def copy_cmd_def

lemmas run_eval = run_def process_tables_def upload_to_snowflake_def print_tables_def
  load_table_def cleanup_def close_def acquire_def emit_def initial_def Let_def
  Table_from_pandas_def

lemmas world_eval = healthy_def cfg_SCH_def id_col_def id_frame_def

lemmas dup_eval = any_true_def duplicated_def dup_cols_def mask_select_def

subsection \<open>Paths\<close>

lemma path_join_output_dir_inj: "path_join output_dir a = path_join output_dir b \<Longrightarrow> a = b"
  by (cases a; cases b) (auto simp add: path_join_def output_dir_def split: if_splits)

lemma table_path_inj: "table_path (s1, t) = table_path (s2, t) \<Longrightarrow> s1 = s2"
  unfolding table_path_def by (drule path_join_output_dir_inj) simp

subsection \<open>Duplicate labels\<close>

lemma mask_select_Cons:
  "mask_select (x # xs) (b # bs) = (if b then x # mask_select xs bs else mask_select xs bs)"
  by (simp add: mask_select_def)

lemma any_true_duplicated_from:
  "any_true (duplicated_from seen xs) \<longleftrightarrow> \<not> distinct xs \<or> set xs \<inter> set seen \<noteq> {}"
  by (induction xs arbitrary: seen) (auto simp add: any_true_def)

lemma any_true_duplicated: "any_true (duplicated xs) \<longleftrightarrow> \<not> distinct xs"
  by (simp add: duplicated_def any_true_duplicated_from)

lemma count_list_pos_iff: "0 < count_list xs y \<longleftrightarrow> y \<in> set xs"
  using count_list_0_iff [of xs y] by auto

lemma set_mask_select_duplicated_from:
  "set (mask_select xs (duplicated_from seen xs)) =
     {x \<in> set xs. x \<in> set seen \<or> 1 < count_list xs x}"
proof (induction xs arbitrary: seen)
  case Nil
  then show ?case by (simp add: mask_select_def)
next
  case (Cons a xs)
  show ?case
    by (auto simp add: mask_select_Cons Cons.IH count_list_pos_iff)
qed

lemma set_dup_cols: "set (dup_cols cols) = {c. 1 < count_list cols c}"
proof -
  have "c \<in> set cols" if "1 < count_list cols c" for c
  proof -
    from that have "0 < count_list cols c" by simp
    then show ?thesis by (simp add: count_list_pos_iff)
  qed
  then show ?thesis
    by (auto simp add: dup_cols_def duplicated_def set_mask_select_duplicated_from)
qed

lemma mask_select_duplicated_from_empty:
  "mask_select xs (duplicated_from seen xs) = [] \<longleftrightarrow> \<not> any_true (duplicated_from seen xs)"
  by (induction xs arbitrary: seen) (auto simp add: mask_select_Cons any_true_def mask_select_def)

lemma dup_cols_nonempty: "\<not> distinct cols \<Longrightarrow> dup_cols cols \<noteq> []"
  by (simp add: dup_cols_def duplicated_def mask_select_duplicated_from_empty
      any_true_duplicated_from)

subsection \<open>The run that meets no failure\<close>

text \<open>
  With every collaborator succeeding, the script exports both tables, issues both DDL
  statements, stages and loads both files, closes the four handles and completes.
\<close>

lemma healthy_run:
  "run healthy cfg_SCH =
     (Completed,
      \<lparr>trace =
         [Print_connected_mssql,
          Print_table ''dbo'' ''A'',
          Print_table ''dbo'' ''B'',
          Print_processing ''dbo'' ''A'',
          Call_read_columns ''dbo'' ''A'',
          Call_read_sql_query ''SELECT [id] FROM [dbo].[A]'',
          Call_write_table id_frame ''./parquet_files/dbo_A.parquet'',
          Print_processing ''dbo'' ''B'',
          Call_read_columns ''dbo'' ''B'',
          Call_read_sql_query ''SELECT [id] FROM [dbo].[B]'',
          Call_write_table id_frame ''./parquet_files/dbo_B.parquet'',
          Print_connected_sf,
          Print_executing_ddl
            ''CREATE OR REPLACE TABLE SCH.\"STG_ADW_A\" (\<newline>  \"id\" NUMBER\<newline>);'',
          Call_sf_execute
            ''CREATE OR REPLACE TABLE SCH.\"STG_ADW_A\" (\<newline>  \"id\" NUMBER\<newline>);'',
          Print_executing_ddl
            ''CREATE OR REPLACE TABLE SCH.\"STG_ADW_B\" (\<newline>  \"id\" NUMBER\<newline>);'',
          Call_sf_execute
            ''CREATE OR REPLACE TABLE SCH.\"STG_ADW_B\" (\<newline>  \"id\" NUMBER\<newline>);'',
          Print_uploading ''dbo_A.parquet'' ''@DB.SCH.staging_stage'',
          Call_sf_execute
            ''PUT file:///work/parquet_files/dbo_A.parquet @DB.SCH.staging_stage/ AUTO_COMPRESS=TRUE;'',
          Print_copying ''DB.SCH.\"STG_ADW_A\"'',
          Call_sf_execute (copy_cmd cfg_SCH (''dbo'', ''A'')),
          Print_uploading ''dbo_B.parquet'' ''@DB.SCH.staging_stage'',
          Call_sf_execute
            ''PUT file:///work/parquet_files/dbo_B.parquet @DB.SCH.staging_stage/ AUTO_COMPRESS=TRUE;'',
          Print_copying ''DB.SCH.\"STG_ADW_B\"'',
          Call_sf_execute (copy_cmd cfg_SCH (''dbo'', ''B'')),
          Call_close Mssql_cursor,
          Call_close Mssql_conn,
          Call_close Sf_cursor,
          Call_close Sf_conn,
          Print_all_done],
       sf_ddl_statements =
         [''CREATE OR REPLACE TABLE SCH.\"STG_ADW_A\" (\<newline>  \"id\" NUMBER\<newline>);'',
          ''CREATE OR REPLACE TABLE SCH.\"STG_ADW_B\" (\<newline>  \"id\" NUMBER\<newline>);''],
       handles = []\<rparr>)"
  by (simp add: run_eval world_eval string_eval dup_eval)

text \<open>The last five statements of the script release every handle, whatever is open.\<close>

lemma handles_cleanup: "handles (cleanup s) = []"
proof -
  have "set (handles (cleanup s)) =
          set (handles s) - {Mssql_cursor, Mssql_conn, Sf_cursor, Sf_conn}"
    by (auto simp add: cleanup_def close_def emit_def)
  moreover have "h \<in> {Mssql_cursor, Mssql_conn, Sf_cursor, Sf_conn}" for h
    by (cases h) simp_all
  ultimately have "set (handles (cleanup s)) = {}" by auto
  then show ?thesis by simp
qed

lemma completed_releases_all:
  "fst (run w cfg) = Completed \<Longrightarrow> handles (snd (run w cfg)) = []"
  by (auto simp add: run_def process_tables_def upload_to_snowflake_def Let_def
      handles_emit handles_cleanup split: option.splits sum.splits if_splits prod.splits)

subsection \<open>Reading the projection query\<close>






subsection \<open>Reading the DDL statement\<close>








lemmas reader_eval = select_labels_def ddl_labels_def emit_label_def strip_blanks_def

subsection \<open>A frame with repeated labels\<close>

text \<open>
  When both queries of a table succeed and the row set has a label more than once, the
  export of the table prints the warning, which names exactly the repeated labels
  (\<open>set_dup_cols\<close>), and then ends in the exception of the conversion: the call that
  writes the file is not reached.
\<close>

lemma duplicate_columns_warned_then_refused:
  assumes "read_columns w (schema, table) = Inr df_cols"
      and "read_sql_query w (select_sql (schema, table) df_cols) = Inr df_data"
      and "\<not> distinct (columns df_data)"
  shows "\<exists>s'. export_table w cfg (schema, table) s = Inl (OtherException, s')
          \<and> trace s' =
              trace s @
                [Print_processing schema table,
                 Call_read_columns schema table,
                 Call_read_sql_query (select_sql (schema, table) df_cols),
                 Print_duplicate schema table (dup_cols (columns df_data))]"
  using assms
  by (simp add: Let_def any_true_duplicated Table_from_pandas_def emit_simps
      del: select_sql.simps ddl.simps)

section \<open>Properties of the Column Projector and the Type Mapper\<close>

text \<open>
  C1. For every column name \<open>c\<close> and source type \<open>t\<close>, compared after lower-casing:
  a binary-family type (image, varbinary, binary) gives the hex conversion
  \<^verbatim>\<open>CONVERT(VARCHAR(MAX), [c], 1) AS [c]\<close>; an opaque or legacy large-text type (xml,
  sql_variant, hierarchyid, geometry, geography, text, ntext) gives the wide-string cast
  \<^verbatim>\<open>CAST([c] AS NVARCHAR(MAX)) AS [c]\<close>; every other type, known or not, gives the
  passthrough \<^verbatim>\<open>[c]\<close>. In all three branches the expression ends with the original column
  name in brackets, and the result does not depend on the case of \<open>t\<close>. The function has
  no failing branch.
\<close>

theorem wrap_column_expr_branches:
  "(lower t \<in> {''image'', ''varbinary'', ''binary''} \<longrightarrow>
      wrap_column_expr c t = ''CONVERT(VARCHAR(MAX), ['' @ c @ ''], 1) AS ['' @ c @ '']'')
   \<and> (lower t \<in> {''xml'', ''sql_variant'', ''hierarchyid'', ''geometry'', ''geography'',
                   ''text'', ''ntext''} \<longrightarrow>
      wrap_column_expr c t = ''CAST(['' @ c @ ''] AS NVARCHAR(MAX)) AS ['' @ c @ '']'')
   \<and> (lower t \<notin> {''image'', ''varbinary'', ''binary'', ''xml'', ''sql_variant'',
                   ''hierarchyid'', ''geometry'', ''geography'', ''text'', ''ntext''} \<longrightarrow>
      wrap_column_expr c t = ''['' @ c @ '']'')
   \<and> suffix (''['' @ c @ '']'') (wrap_column_expr c t)
   \<and> wrap_column_expr c (lower t) = wrap_column_expr c t"
  using wrap_column_expr_alias [of c t]
  by (auto simp add: wrap_column_expr_cases lower_idem)

theorem wrap_column_expr_branches_witness:
  "lower ''VarBinary'' \<in> {''image'', ''varbinary'', ''binary''}
   \<and> wrap_column_expr ''Photo'' ''VarBinary'' = ''CONVERT(VARCHAR(MAX), [Photo], 1) AS [Photo]''
   \<and> lower ''XML'' \<in> {''xml'', ''sql_variant'', ''hierarchyid'', ''geometry'', ''geography'',
                         ''text'', ''ntext''}
   \<and> wrap_column_expr ''Doc'' ''XML'' = ''CAST([Doc] AS NVARCHAR(MAX)) AS [Doc]''
   \<and> lower ''mystery'' \<notin> {''image'', ''varbinary'', ''binary'', ''xml'', ''sql_variant'',
                   ''hierarchyid'', ''geometry'', ''geography'', ''text'', ''ntext''}
   \<and> wrap_column_expr ''Id'' ''mystery'' = ''[Id]''"
  using wrap_column_expr_branches [of "''VarBinary''" "''Photo''"]
        wrap_column_expr_branches [of "''XML''" "''Doc''"]
        wrap_column_expr_branches [of "''mystery''" "''Id''"]
  by (simp add: lower_eval)

text \<open>
  C2. \<open>mssql_to_sf_type\<close> is a total function of its argument alone: for every string \<open>s\<close>
  it returns one of the seven destination type names, it returns the same name for \<open>s\<close>
  and for the lower-cased \<open>s\<close>, and when the lower-cased \<open>s\<close> is not a key of the table
  the result is \<^verbatim>\<open>VARCHAR\<close>.
\<close>

theorem mssql_to_sf_type_total:
  "mssql_to_sf_type s = mssql_to_sf_type (lower s)
   \<and> mssql_to_sf_type s \<in>
       {''NUMBER'', ''BOOLEAN'', ''VARCHAR'', ''TIMESTAMP_NTZ'', ''DATE'', ''TIME'', ''FLOAT''}
   \<and> (lower s \<notin> set (map fst mapping) \<longrightarrow> mssql_to_sf_type s = ''VARCHAR'')"
proof -
  have a: "mssql_to_sf_type s = mssql_to_sf_type (lower s)"
    by (simp add: mssql_to_sf_type_def lower_idem)
  have b: "mssql_to_sf_type s \<in> insert ''VARCHAR'' (snd ` set mapping)"
  proof (cases "map_of mapping (lower s)")
    case None
    then show ?thesis by (simp add: mssql_to_sf_type_def)
  next
    case (Some v)
    then have "(lower s, v) \<in> set mapping" by (rule map_of_SomeD)
    then have "v \<in> snd ` set mapping" by force
    with Some show ?thesis by (simp add: mssql_to_sf_type_def)
  qed
  have c: "lower s \<notin> set (map fst mapping) \<longrightarrow> mssql_to_sf_type s = ''VARCHAR''"
  proof
    assume "lower s \<notin> set (map fst mapping)"
    then have "map_of mapping (lower s) = None" by (simp add: map_of_eq_None_iff)
    then show "mssql_to_sf_type s = ''VARCHAR''" by (simp add: mssql_to_sf_type_def)
  qed
  from b have b': "mssql_to_sf_type s \<in>
       {''NUMBER'', ''BOOLEAN'', ''VARCHAR'', ''TIMESTAMP_NTZ'', ''DATE'', ''TIME'', ''FLOAT''}"
    unfolding mapping_values by blast
  from a b' c show ?thesis by (intro conjI)
qed

theorem mssql_to_sf_type_total_witness:
  "mssql_to_sf_type ''INT'' = mssql_to_sf_type ''int''
   \<and> mssql_to_sf_type ''INT'' = ''NUMBER''
   \<and> lower ''Frobnicate'' \<notin> set (map fst mapping)
   \<and> mssql_to_sf_type ''Frobnicate'' = ''VARCHAR''"
  using mssql_to_sf_type_total [of "''INT''"] mssql_to_sf_type_total [of "''Frobnicate''"]
  by (simp add: lower_eval mapping_def mssql_to_sf_type_def)

text \<open>
  C10. Whenever \<open>wrap_column_expr\<close> returns anything other than the passthrough \<^verbatim>\<open>[c]\<close>
  for a type \<open>t\<close> (the hex-conversion branch or the wide-string cast branch), the Type
  Mapper declares the column as \<^verbatim>\<open>VARCHAR\<close>.
\<close>

theorem encoded_columns_are_varchar:
  "wrap_column_expr c t \<noteq> ''['' @ c @ '']'' \<Longrightarrow> mssql_to_sf_type t = ''VARCHAR''"
proof -
  assume "wrap_column_expr c t \<noteq> ''['' @ c @ '']''"
  then have "lower t \<in> {''image'', ''varbinary'', ''binary'', ''xml'', ''sql_variant'',
                   ''hierarchyid'', ''geometry'', ''geography'', ''text'', ''ntext''}"
    by (auto simp add: wrap_column_expr_cases split: if_splits)
  then show ?thesis
    by (auto simp add: mssql_to_sf_type_def mapping_def)
qed

theorem encoded_columns_are_varchar_witness:
  "wrap_column_expr ''Photo'' ''VARBINARY'' \<noteq> ''[Photo]''
   \<and> mssql_to_sf_type ''VARBINARY'' = ''VARCHAR''
   \<and> wrap_column_expr ''Notes'' ''NText'' \<noteq> ''[Notes]''
   \<and> mssql_to_sf_type ''NText'' = ''VARCHAR''"
proof -
  have p: "wrap_column_expr ''Photo'' ''VARBINARY'' \<noteq> ''['' @ ''Photo'' @ '']''"
    by (simp add: wrap_column_expr_cases lower_eval)
  have n: "wrap_column_expr ''Notes'' ''NText'' \<noteq> ''['' @ ''Notes'' @ '']''"
    by (simp add: wrap_column_expr_cases lower_eval)
  show ?thesis
    using p n encoded_columns_are_varchar [OF p] encoded_columns_are_varchar [OF n]
    by simp
qed

section \<open>Properties of the Schema Translator\<close>

text \<open>
  C3. For the columns \<open>(CustomerID int, Name nvarchar, Photo varbinary)\<close> of
  \<^verbatim>\<open>dbo.Customers\<close> and destination schema \<^verbatim>\<open>SCH\<close>, the DDL statement is
  \<^verbatim>\<open>CREATE OR REPLACE TABLE SCH."STG_ADW_Customers" ("CustomerID" NUMBER, "Name" VARCHAR, "Photo" VARCHAR);\<close>
  up to blanks and line breaks (the script puts each column definition on a line of its
  own); it lists the three columns in metadata order, typed \<^verbatim>\<open>NUMBER\<close>, \<^verbatim>\<open>VARCHAR\<close>,
  \<^verbatim>\<open>VARCHAR\<close>; and the projection query selects \<^verbatim>\<open>[CustomerID]\<close>, \<^verbatim>\<open>[Name]\<close> and the
  hex conversion of \<^verbatim>\<open>[Photo]\<close> aliased to \<^verbatim>\<open>[Photo]\<close>. For the column list
  \<open>(id int, name nvarchar, photo varbinary)\<close> the projection query selects exactly
  \<^verbatim>\<open>[id]\<close>, \<^verbatim>\<open>[name]\<close> and \<^verbatim>\<open>CONVERT(VARCHAR(MAX), [photo], 1) AS [photo]\<close>.
\<close>

theorem customers_translation:
  "strip_blanks (ddl cfg_SCH (''dbo'', ''Customers'') customers_cols) =
     strip_blanks
       ''CREATE OR REPLACE TABLE SCH.\"STG_ADW_Customers\" (\"CustomerID\" NUMBER, \"Name\" VARCHAR, \"Photo\" VARCHAR);''
   \<and> ddl cfg_SCH (''dbo'', ''Customers'') customers_cols =
     ''CREATE OR REPLACE TABLE SCH.\"STG_ADW_Customers\" (\<newline>  \"CustomerID\" NUMBER,\<newline>  \"Name\" VARCHAR,\<newline>  \"Photo\" VARCHAR\<newline>);''
   \<and> ddl_labels (ddl cfg_SCH (''dbo'', ''Customers'') customers_cols) =
       [''CustomerID'', ''Name'', ''Photo'']
   \<and> map (\<lambda>row. mssql_to_sf_type (DATA_TYPE row)) customers_cols =
       [''NUMBER'', ''VARCHAR'', ''VARCHAR'']
   \<and> col_exprs customers_cols =
       [''[CustomerID]'', ''[Name]'', ''CONVERT(VARCHAR(MAX), [Photo], 1) AS [Photo]'']
   \<and> select_sql (''dbo'', ''Customers'') customers_cols =
       ''SELECT [CustomerID], [Name], CONVERT(VARCHAR(MAX), [Photo], 1) AS [Photo] FROM [dbo].[Customers]''
   \<and> strip_blanks (ddl cfg_SCH (''dbo'', ''Customers'') id_name_photo_cols) =
     strip_blanks
       ''CREATE OR REPLACE TABLE SCH.\"STG_ADW_Customers\" (\"id\" NUMBER, \"name\" VARCHAR, \"photo\" VARCHAR);''
   \<and> map (\<lambda>row. mssql_to_sf_type (DATA_TYPE row)) id_name_photo_cols =
       [''NUMBER'', ''VARCHAR'', ''VARCHAR'']
   \<and> col_exprs id_name_photo_cols =
       [''[id]'', ''[name]'', ''CONVERT(VARCHAR(MAX), [photo], 1) AS [photo]'']
   \<and> select_sql (''dbo'', ''Customers'') id_name_photo_cols =
       ''SELECT [id], [name], CONVERT(VARCHAR(MAX), [photo], 1) AS [photo] FROM [dbo].[Customers]''"
  by (simp add: cfg_SCH_def customers_cols_def id_name_photo_cols_def string_eval reader_eval)




text \<open>
  C9. The destination table is named from the source table name alone. For two source
  tables with the same table name \<open>t\<close> and different schema names, the DDL statements
  name the same destination table \<^verbatim>\<open>"STG_ADW_t"\<close> (and are equal when the columns are),
  the load commands copy into the same fully qualified table, and the exported file names
  and paths, which contain the schema name, differ.
\<close>

theorem destination_table_ignores_schema:
  assumes "s1 \<noteq> s2"
  shows "ddl cfg (s1, t) cols = ddl cfg (s2, t) cols
     \<and> prefix (''CREATE OR REPLACE TABLE '' @ py_str (sf_schema cfg) @ ''.\"STG_ADW_'' @ t @ ''\" ('')
          (ddl cfg (s1, t) cols1)
     \<and> prefix (''CREATE OR REPLACE TABLE '' @ py_str (sf_schema cfg) @ ''.\"STG_ADW_'' @ t @ ''\" ('')
          (ddl cfg (s2, t) cols2)
     \<and> full_table_name cfg (s1, t) = full_table_name cfg (s2, t)
     \<and> full_table_name cfg (s1, t) =
         py_str (sf_database cfg) @ ''.'' @ py_str (sf_schema cfg) @ ''.\"STG_ADW_'' @ t @ ''\"''
     \<and> prefix (''\<newline>        COPY INTO '' @ full_table_name cfg (s1, t) @ ''\<newline>'')
          (copy_cmd cfg (s1, t))
     \<and> prefix (''\<newline>        COPY INTO '' @ full_table_name cfg (s1, t) @ ''\<newline>'')
          (copy_cmd cfg (s2, t))
     \<and> parquet_file (s1, t) \<noteq> parquet_file (s2, t)
     \<and> table_path (s1, t) \<noteq> table_path (s2, t)"
  using assms table_path_inj [of s1 t s2]
  by (auto simp add: prefix_def copy_cmd_def)

theorem destination_table_ignores_schema_witness:
  "''Sales'' \<noteq> ''HR''
   \<and> ddl cfg_SCH (''Sales'', ''Person'') id_col = ddl cfg_SCH (''HR'', ''Person'') id_col
   \<and> full_table_name cfg_SCH (''Sales'', ''Person'') = ''DB.SCH.\"STG_ADW_Person\"''
   \<and> full_table_name cfg_SCH (''HR'', ''Person'') = ''DB.SCH.\"STG_ADW_Person\"''
   \<and> table_path (''Sales'', ''Person'') = ''./parquet_files/Sales_Person.parquet''
   \<and> table_path (''HR'', ''Person'') = ''./parquet_files/HR_Person.parquet''"
proof -
  have ne: "''Sales'' \<noteq> ''HR''" by simp
  show ?thesis
    using ne destination_table_ignores_schema [OF ne, of cfg_SCH "''Person''" id_col id_col id_col]
    by (simp add: cfg_SCH_def string_eval)
qed

section \<open>Failures during the run\<close>

text \<open>
  C4, at a failing input. The table \<^verbatim>\<open>dbo.T\<close> has the columns \<^verbatim>\<open>a\<close> and
  \<^verbatim>\<open>a], [a\<close>; the row set of its projection query has three columns labelled \<^verbatim>\<open>a\<close>.
  The warning of line 139 is printed and names the repeated label. Then the conversion
  of line 142 refuses the frame: the exception ends the script, no file is written, and
  nothing reaches the destination.
\<close>

theorem duplicate_labels_end_run:
  "run duplicate_labels cfg_SCH =
     (Uncaught OtherException,
      \<lparr>trace =
         [Print_connected_mssql,
          Print_table ''dbo'' ''T'',
          Print_processing ''dbo'' ''T'',
          Call_read_columns ''dbo'' ''T'',
          Call_read_sql_query ''SELECT [a], [a], [a] FROM [dbo].[T]'',
          Print_duplicate ''dbo'' ''T'' [''a'', ''a'']],
       sf_ddl_statements =
         [''CREATE OR REPLACE TABLE SCH.\"STG_ADW_T\" (\<newline>  \"a\" NUMBER,\<newline>  \"a], [a\" NUMBER\<newline>);''],
       handles = [Mssql_conn, Mssql_cursor]\<rparr>)"
  by (simp add: run_eval duplicate_labels_def bracket_cols_def aaa_frame_def world_eval
      string_eval dup_eval)

text \<open>
  C5, at a failing input. The source has the tables \<^verbatim>\<open>dbo.A\<close> and \<^verbatim>\<open>dbo.B\<close>; every
  call succeeds except the projection query of \<^verbatim>\<open>dbo.B\<close>, which raises. The exception
  leaves the export loop and ends the script: the file of \<^verbatim>\<open>dbo.A\<close> has been written, but
  no statement reaches the destination (no DDL, no PUT, no COPY, for either table), no
  failure message is printed, and the two source handles stay open. Compare
  \<open>healthy_run\<close>.
\<close>

theorem export_failure_ends_run:
  "run export_B_fails cfg_SCH =
     (Uncaught OtherException,
      \<lparr>trace =
         [Print_connected_mssql,
          Print_table ''dbo'' ''A'',
          Print_table ''dbo'' ''B'',
          Print_processing ''dbo'' ''A'',
          Call_read_columns ''dbo'' ''A'',
          Call_read_sql_query ''SELECT [id] FROM [dbo].[A]'',
          Call_write_table id_frame ''./parquet_files/dbo_A.parquet'',
          Print_processing ''dbo'' ''B'',
          Call_read_columns ''dbo'' ''B'',
          Call_read_sql_query ''SELECT [id] FROM [dbo].[B]''],
       sf_ddl_statements =
         [''CREATE OR REPLACE TABLE SCH.\"STG_ADW_A\" (\<newline>  \"id\" NUMBER\<newline>);'',
          ''CREATE OR REPLACE TABLE SCH.\"STG_ADW_B\" (\<newline>  \"id\" NUMBER\<newline>);''],
       handles = [Mssql_conn, Mssql_cursor]\<rparr>)"
  by (simp add: run_eval export_B_fails_def world_eval string_eval dup_eval)

text \<open>
  C6, at a failing input. Both tables are exported; the destination rejects the DDL
  statement of \<^verbatim>\<open>dbo.A\<close>, the first one issued. The exception leaves the DDL loop and ends
  the script: the DDL statement of \<^verbatim>\<open>dbo.B\<close> is never issued, nothing is staged or loaded,
  no failure message is printed, and all four handles stay open.
\<close>

theorem ddl_failure_ends_run:
  "run ddl_A_fails cfg_SCH =
     (Uncaught SnowflakeError,
      \<lparr>trace =
         [Print_connected_mssql,
          Print_table ''dbo'' ''A'',
          Print_table ''dbo'' ''B'',
          Print_processing ''dbo'' ''A'',
          Call_read_columns ''dbo'' ''A'',
          Call_read_sql_query ''SELECT [id] FROM [dbo].[A]'',
          Call_write_table id_frame ''./parquet_files/dbo_A.parquet'',
          Print_processing ''dbo'' ''B'',
          Call_read_columns ''dbo'' ''B'',
          Call_read_sql_query ''SELECT [id] FROM [dbo].[B]'',
          Call_write_table id_frame ''./parquet_files/dbo_B.parquet'',
          Print_connected_sf,
          Print_executing_ddl
            ''CREATE OR REPLACE TABLE SCH.\"STG_ADW_A\" (\<newline>  \"id\" NUMBER\<newline>);'',
          Call_sf_execute
            ''CREATE OR REPLACE TABLE SCH.\"STG_ADW_A\" (\<newline>  \"id\" NUMBER\<newline>);''],
       sf_ddl_statements =
         [''CREATE OR REPLACE TABLE SCH.\"STG_ADW_A\" (\<newline>  \"id\" NUMBER\<newline>);'',
          ''CREATE OR REPLACE TABLE SCH.\"STG_ADW_B\" (\<newline>  \"id\" NUMBER\<newline>);''],
       handles = [Mssql_conn, Mssql_cursor, Sf_conn, Sf_cursor]\<rparr>)"
  by (simp add: run_eval ddl_A_fails_def world_eval string_eval dup_eval)

text \<open>
  C8, at a failing input. The source connects and both tables are exported; the
  connection to the destination fails with \<^verbatim>\<open>snowflake.connector.Error\<close>. Line 152 exits
  with status 1 at once: no handle is closed, and the source connection and its cursor
  are still open when the process ends. On the path that completes, every handle is
  closed (\<open>completed_releases_all\<close>).
\<close>

theorem snowflake_down_leaves_source_open:
  "run snowflake_down cfg_SCH =
     (Exit 1,
      \<lparr>trace =
         [Print_connected_mssql,
          Print_table ''dbo'' ''A'',
          Print_table ''dbo'' ''B'',
          Print_processing ''dbo'' ''A'',
          Call_read_columns ''dbo'' ''A'',
          Call_read_sql_query ''SELECT [id] FROM [dbo].[A]'',
          Call_write_table id_frame ''./parquet_files/dbo_A.parquet'',
          Print_processing ''dbo'' ''B'',
          Call_read_columns ''dbo'' ''B'',
          Call_read_sql_query ''SELECT [id] FROM [dbo].[B]'',
          Call_write_table id_frame ''./parquet_files/dbo_B.parquet'',
          Print_sf_failed SnowflakeError],
       sf_ddl_statements =
         [''CREATE OR REPLACE TABLE SCH.\"STG_ADW_A\" (\<newline>  \"id\" NUMBER\<newline>);'',
          ''CREATE OR REPLACE TABLE SCH.\"STG_ADW_B\" (\<newline>  \"id\" NUMBER\<newline>);''],
       handles = [Mssql_conn, Mssql_cursor]\<rparr>)"
  by (simp add: run_eval snowflake_down_def world_eval string_eval dup_eval)

end
